theory Spec2Isabelle
  imports Main
begin

section \<open>Data model\<close>

text \<open>
  \<^verbatim>\<open>Option<T> = Some<T> | None\<close> (Option.ts) and \<^verbatim>\<open>Result<T, E> = Ok<T> | Err<E>\<close>
  (Result.ts) are tagged unions discriminated by their \<^verbatim>\<open>_tag\<close> field; each is a
  datatype here. The constructors of \<^verbatim>\<open>Option\<close> carry the suffix \<open>Opt\<close>, since
  \<open>Some\<close> and \<open>None\<close> are taken by HOL; a function whose name both modules export, or
  HOL has, carries its module's name (\<open>Option_map\<close>, \<open>Result_mapOr\<close>, \<open>Option_zip\<close>). Equality of the datatypes is the structural
  equality of the objects (\<^verbatim>\<open>toStrictEqual\<close>); reference identity is not modelled.
\<close>

datatype 'a Option = SomeOpt (some_value: 'a) | NoneOpt

datatype ('t, 'e) Result = Ok (ok_value: 't) | Err (err_error: 'e)

text \<open>
  \<^verbatim>\<open>new Error(msg)\<close>: the only field the library sets is the message.
\<close>

datatype Error = Error (message: string)

text \<open>
  The outcome of a call that may raise: it returns a value or throws one. A computation
  that the library wraps in order to capture its failure yields a \<open>completion\<close>. The
  combinators of Option.ts come twice: first with callbacks that are total HOL functions,
  as their TypeScript signatures declare them, and then, under the suffix \<open>_call\<close>, with
  callbacks that may throw.
\<close>

datatype ('x, 'a) completion = Returns 'a | Throws 'x

section \<open>Option.ts\<close>

text \<open>
  \<^verbatim>\<open>match(self).with({ _tag: "Some" }, h).otherwise(k)\<close> of ts-pattern is a
  \<open>case\<close> on the datatype; a curried combinator \<^verbatim>\<open>f(args)(self)\<close> takes \<open>self\<close> last.
\<close>

definition isSome :: "'a Option \<Rightarrow> bool" where
  "isSome option = (case option of SomeOpt _ \<Rightarrow> True | NoneOpt \<Rightarrow> False)"

definition isNone :: "'a Option \<Rightarrow> bool" where
  "isNone self = (case self of NoneOpt \<Rightarrow> True | SomeOpt _ \<Rightarrow> False)"

definition Option_and :: "'u Option \<Rightarrow> 't Option \<Rightarrow> 'u Option" where
  "Option_and other self = (case self of SomeOpt _ \<Rightarrow> other | NoneOpt \<Rightarrow> NoneOpt)"

definition Option_andThen :: "('t \<Rightarrow> 'u Option) \<Rightarrow> 't Option \<Rightarrow> 'u Option" where
  "Option_andThen fn self = (case self of SomeOpt v \<Rightarrow> fn v | NoneOpt \<Rightarrow> NoneOpt)"

definition Option_expect :: "string \<Rightarrow> 't Option \<Rightarrow> (Error, 't) completion" where
  "Option_expect msg self =
     (case self of SomeOpt v \<Rightarrow> Returns v | NoneOpt \<Rightarrow> Throws (Error msg))"

definition Option_filter :: "('t \<Rightarrow> bool) \<Rightarrow> 't Option \<Rightarrow> 't Option" where
  "Option_filter predicate self =
     (case self of SomeOpt v \<Rightarrow> (if predicate v then self else NoneOpt) | NoneOpt \<Rightarrow> NoneOpt)"

definition Option_flatten :: "'t Option Option \<Rightarrow> 't Option" where
  "Option_flatten self = (case self of SomeOpt v \<Rightarrow> v | NoneOpt \<Rightarrow> NoneOpt)"

text \<open>
  \<^verbatim>\<open>inspect(fn)\<close> calls \<^verbatim>\<open>fn\<close> for its effect: the effect is a transformer of an
  explicit state \<open>s\<close>, and the original option comes back with the new state.
\<close>

definition Option_inspect :: "('t \<Rightarrow> 's \<Rightarrow> 's) \<Rightarrow> 't Option \<Rightarrow> 's \<Rightarrow> 't Option \<times> 's" where
  "Option_inspect fn self s =
     (case self of SomeOpt v \<Rightarrow> (self, fn v s) | NoneOpt \<Rightarrow> (self, s))"

definition isNoneOr :: "('t \<Rightarrow> bool) \<Rightarrow> 't Option \<Rightarrow> bool" where
  "isNoneOr fn self =
     (case self of NoneOpt \<Rightarrow> True | SomeOpt v \<Rightarrow> (if fn v then True else False))"

definition isSomeAnd :: "('t \<Rightarrow> bool) \<Rightarrow> 't Option \<Rightarrow> bool" where
  "isSomeAnd predicate self = (case self of SomeOpt v \<Rightarrow> predicate v | NoneOpt \<Rightarrow> False)"

definition Option_map :: "('t \<Rightarrow> 'u) \<Rightarrow> 't Option \<Rightarrow> 'u Option" where
  "Option_map fn self = (case self of SomeOpt v \<Rightarrow> SomeOpt (fn v) | NoneOpt \<Rightarrow> NoneOpt)"

definition Option_mapOr :: "'u \<Rightarrow> ('t \<Rightarrow> 'u) \<Rightarrow> 't Option \<Rightarrow> 'u Option" where
  "Option_mapOr defaultValue fn self =
     (case self of SomeOpt v \<Rightarrow> SomeOpt (fn v) | NoneOpt \<Rightarrow> SomeOpt defaultValue)"

definition Option_mapOrElse :: "(unit \<Rightarrow> 'u) \<Rightarrow> ('t \<Rightarrow> 'u) \<Rightarrow> 't Option \<Rightarrow> 'u Option" where
  "Option_mapOrElse defaultFn fn self =
     (case self of SomeOpt v \<Rightarrow> SomeOpt (fn v) | NoneOpt \<Rightarrow> SomeOpt (defaultFn ()))"

definition okOr :: "'e \<Rightarrow> 't Option \<Rightarrow> ('t, 'e) Result" where
  "okOr err self = (case self of SomeOpt v \<Rightarrow> Ok v | NoneOpt \<Rightarrow> Err err)"

definition okOrElse :: "(unit \<Rightarrow> 'e) \<Rightarrow> 't Option \<Rightarrow> ('t, 'e) Result" where
  "okOrElse errFn self = (case self of SomeOpt v \<Rightarrow> Ok v | NoneOpt \<Rightarrow> Err (errFn ()))"

definition Option_or :: "'t Option \<Rightarrow> 't Option \<Rightarrow> 't Option" where
  "Option_or other self = (case self of SomeOpt _ \<Rightarrow> self | NoneOpt \<Rightarrow> other)"

text \<open>
  \<^verbatim>\<open>orElse\<close> and \<^verbatim>\<open>unwrapOrElse\<close> hand \<^verbatim>\<open>fn\<close> itself to \<^verbatim>\<open>.otherwise\<close>, which
  calls its handler with the matched input: \<^verbatim>\<open>fn\<close> is called as \<^verbatim>\<open>fn(self)\<close>, although
  its declared type is \<^verbatim>\<open>() => ...\<close>. The other lazy arguments (\<^verbatim>\<open>defaultFn\<close>,
  \<^verbatim>\<open>errFn\<close>) are called with no argument, inside an arrow function.
\<close>

definition Option_orElse :: "('t Option \<Rightarrow> 't Option) \<Rightarrow> 't Option \<Rightarrow> 't Option" where
  "Option_orElse fn self = (case self of SomeOpt _ \<Rightarrow> self | NoneOpt \<Rightarrow> fn self)"

section \<open>Result.ts: the predicates used by Option.ts\<close>

definition isOk :: "('t, 'e) Result \<Rightarrow> bool" where
  "isOk self = (case self of Ok _ \<Rightarrow> True | Err _ \<Rightarrow> False)"

definition isErr :: "('t, 'e) Result \<Rightarrow> bool" where
  "isErr self = (case self of Err _ \<Rightarrow> True | Ok _ \<Rightarrow> False)"

section \<open>Option.ts, continued\<close>

text \<open>
  \<^verbatim>\<open>transpose\<close> has three branches, tried in this order: a \<^verbatim>\<open>Some\<close> whose value
  satisfies \<^verbatim>\<open>isOk\<close>, a \<^verbatim>\<open>Some\<close> whose value satisfies \<^verbatim>\<open>isErr\<close>, and
  \<^verbatim>\<open>otherwise\<close>. The fields \<^verbatim>\<open>value.value\<close> and \<^verbatim>\<open>value.error\<close> are read under
  the guard that makes them exist.
\<close>

definition Option_transpose :: "('t, 'e) Result Option \<Rightarrow> ('t Option, 'e) Result" where
  "Option_transpose self =
     (case self of
        SomeOpt v \<Rightarrow>
          (if isOk v then Ok (SomeOpt (ok_value v))
           else if isErr v then Err (err_error v)
           else Ok NoneOpt)
      | NoneOpt \<Rightarrow> Ok NoneOpt)"

definition Option_unwrap :: "'t Option \<Rightarrow> (Error, 't) completion" where
  "Option_unwrap self =
     (case self of
        SomeOpt v \<Rightarrow> Returns v
      | NoneOpt \<Rightarrow> Throws (Error ''Called `Option.unwrap()` on a `None` value''))"

definition Option_unwrapOr :: "'t \<Rightarrow> 't Option \<Rightarrow> 't" where
  "Option_unwrapOr defaultValue self = (case self of SomeOpt v \<Rightarrow> v | NoneOpt \<Rightarrow> defaultValue)"

definition Option_unwrapOrElse :: "('t Option \<Rightarrow> 't) \<Rightarrow> 't Option \<Rightarrow> 't" where
  "Option_unwrapOrElse fn self = (case self of SomeOpt v \<Rightarrow> v | NoneOpt \<Rightarrow> fn self)"

text \<open>The tuple \<^verbatim>\<open>[a, b]\<close> is a pair.\<close>

definition unzip :: "('t \<times> 'u) Option \<Rightarrow> 't Option \<times> 'u Option" where
  "unzip self =
     (case self of SomeOpt (a, b) \<Rightarrow> (SomeOpt a, SomeOpt b) | NoneOpt \<Rightarrow> (NoneOpt, NoneOpt))"

definition Option_xor :: "'t Option \<Rightarrow> 't Option \<Rightarrow> 't Option" where
  "Option_xor other self =
     (case self of
        SomeOpt _ \<Rightarrow> (if isSome other then NoneOpt else self)
      | NoneOpt \<Rightarrow> (if isNone other then NoneOpt else other))"

definition Option_zip :: "'u Option \<Rightarrow> 't Option \<Rightarrow> ('t \<times> 'u) Option" where
  "Option_zip other self =
     (if isSome self \<and> isSome other then SomeOpt (some_value self, some_value other)
      else NoneOpt)"

definition zipWith :: "'u Option \<Rightarrow> ('t \<Rightarrow> 'u \<Rightarrow> 'r) \<Rightarrow> 't Option \<Rightarrow> 'r Option" where
  "zipWith other fn self =
     (if isSome self \<and> isSome other then SomeOpt (fn (some_value self) (some_value other))
      else NoneOpt)"

section \<open>Option.ts, with callbacks that may throw\<close>

text \<open>
  Option.ts has no \<^verbatim>\<open>try\<close>: where a combinator calls a callback and the callback
  throws, the call of the combinator ends there and throws the same value. The
  combinators that take a callback, again, with the callback a function into a
  \<open>completion\<close>; the bodies are the ones above. The predicate of \<^verbatim>\<open>filter\<close> and of
  \<^verbatim>\<open>isNoneOr\<close> runs inside \<^verbatim>\<open>P.when\<close>, while the pattern is matched; ts-pattern
  catches nothing either.
\<close>

definition Option_andThen_call ::
  "('t \<Rightarrow> ('x, 'u Option) completion) \<Rightarrow> 't Option \<Rightarrow> ('x, 'u Option) completion" where
  "Option_andThen_call fn self = (case self of SomeOpt v \<Rightarrow> fn v | NoneOpt \<Rightarrow> Returns NoneOpt)"

definition Option_filter_call ::
  "('t \<Rightarrow> ('x, bool) completion) \<Rightarrow> 't Option \<Rightarrow> ('x, 't Option) completion" where
  "Option_filter_call predicate self =
     (case self of
        SomeOpt v \<Rightarrow>
          (case predicate v of
             Throws x \<Rightarrow> Throws x
           | Returns b \<Rightarrow> Returns (if b then self else NoneOpt))
      | NoneOpt \<Rightarrow> Returns NoneOpt)"

definition Option_inspect_call ::
  "('t \<Rightarrow> 's \<Rightarrow> ('x, 's) completion) \<Rightarrow> 't Option \<Rightarrow> 's \<Rightarrow> ('x, 't Option \<times> 's) completion" where
  "Option_inspect_call fn self s =
     (case self of
        SomeOpt v \<Rightarrow>
          (case fn v s of Throws x \<Rightarrow> Throws x | Returns s' \<Rightarrow> Returns (self, s'))
      | NoneOpt \<Rightarrow> Returns (self, s))"

definition isNoneOr_call ::
  "('t \<Rightarrow> ('x, bool) completion) \<Rightarrow> 't Option \<Rightarrow> ('x, bool) completion" where
  "isNoneOr_call fn self =
     (case self of
        NoneOpt \<Rightarrow> Returns True
      | SomeOpt v \<Rightarrow>
          (case fn v of
             Throws x \<Rightarrow> Throws x
           | Returns b \<Rightarrow> Returns (if b then True else False)))"

definition isSomeAnd_call ::
  "('t \<Rightarrow> ('x, bool) completion) \<Rightarrow> 't Option \<Rightarrow> ('x, bool) completion" where
  "isSomeAnd_call predicate self =
     (case self of SomeOpt v \<Rightarrow> predicate v | NoneOpt \<Rightarrow> Returns False)"

definition Option_map_call ::
  "('t \<Rightarrow> ('x, 'u) completion) \<Rightarrow> 't Option \<Rightarrow> ('x, 'u Option) completion" where
  "Option_map_call fn self =
     (case self of
        SomeOpt v \<Rightarrow> (case fn v of Throws x \<Rightarrow> Throws x | Returns u \<Rightarrow> Returns (SomeOpt u))
      | NoneOpt \<Rightarrow> Returns NoneOpt)"

definition Option_mapOr_call ::
  "'u \<Rightarrow> ('t \<Rightarrow> ('x, 'u) completion) \<Rightarrow> 't Option \<Rightarrow> ('x, 'u Option) completion" where
  "Option_mapOr_call defaultValue fn self =
     (case self of
        SomeOpt v \<Rightarrow> (case fn v of Throws x \<Rightarrow> Throws x | Returns u \<Rightarrow> Returns (SomeOpt u))
      | NoneOpt \<Rightarrow> Returns (SomeOpt defaultValue))"

definition Option_mapOrElse_call ::
  "(unit \<Rightarrow> ('x, 'u) completion) \<Rightarrow> ('t \<Rightarrow> ('x, 'u) completion) \<Rightarrow> 't Option \<Rightarrow>
     ('x, 'u Option) completion" where
  "Option_mapOrElse_call defaultFn fn self =
     (case self of
        SomeOpt v \<Rightarrow> (case fn v of Throws x \<Rightarrow> Throws x | Returns u \<Rightarrow> Returns (SomeOpt u))
      | NoneOpt \<Rightarrow>
          (case defaultFn () of Throws x \<Rightarrow> Throws x | Returns u \<Rightarrow> Returns (SomeOpt u)))"

definition okOrElse_call ::
  "(unit \<Rightarrow> ('x, 'e) completion) \<Rightarrow> 't Option \<Rightarrow> ('x, ('t, 'e) Result) completion" where
  "okOrElse_call errFn self =
     (case self of
        SomeOpt v \<Rightarrow> Returns (Ok v)
      | NoneOpt \<Rightarrow> (case errFn () of Throws x \<Rightarrow> Throws x | Returns e \<Rightarrow> Returns (Err e)))"

definition Option_orElse_call ::
  "('t Option \<Rightarrow> ('x, 't Option) completion) \<Rightarrow> 't Option \<Rightarrow> ('x, 't Option) completion" where
  "Option_orElse_call fn self = (case self of SomeOpt _ \<Rightarrow> Returns self | NoneOpt \<Rightarrow> fn self)"

definition Option_unwrapOrElse_call ::
  "('t Option \<Rightarrow> ('x, 't) completion) \<Rightarrow> 't Option \<Rightarrow> ('x, 't) completion" where
  "Option_unwrapOrElse_call fn self = (case self of SomeOpt v \<Rightarrow> Returns v | NoneOpt \<Rightarrow> fn self)"

definition zipWith_call ::
  "'u Option \<Rightarrow> ('t \<Rightarrow> 'u \<Rightarrow> ('x, 'r) completion) \<Rightarrow> 't Option \<Rightarrow> ('x, 'r Option) completion" where
  "zipWith_call other fn self =
     (if isSome self \<and> isSome other then
        (case fn (some_value self) (some_value other) of
           Throws x \<Rightarrow> Throws x
         | Returns r \<Rightarrow> Returns (SomeOpt r))
      else Returns NoneOpt)"

text \<open>
  A callback that throws whatever it is given, \<^verbatim>\<open>(v) => { throw new Error("boom") }\<close>;
  its declared type can be \<^verbatim>\<open>(value: string) => number\<close>.
\<close>

definition throwingCallback :: "string \<Rightarrow> (Error, int) completion" where
  "throwingCallback v = Throws (Error ''boom'')"

section \<open>Result.ts\<close>

definition Result_mapOr :: "'u \<Rightarrow> ('t \<Rightarrow> 'u) \<Rightarrow> ('t, 'e) Result \<Rightarrow> 'u" where
  "Result_mapOr defaultValue fn self = (case self of Ok v \<Rightarrow> fn v | Err _ \<Rightarrow> defaultValue)"

definition Result_mapOrElse :: "('e \<Rightarrow> 'u) \<Rightarrow> ('t \<Rightarrow> 'u) \<Rightarrow> ('t, 'e) Result \<Rightarrow> 'u" where
  "Result_mapOrElse fnWhenErr fn self = (case self of Ok v \<Rightarrow> fn v | Err e \<Rightarrow> fnWhenErr e)"

definition Result_expect :: "string \<Rightarrow> ('t, 'e) Result \<Rightarrow> (Error, 't) completion" where
  "Result_expect msg self =
     (case self of Ok v \<Rightarrow> Returns v | Err _ \<Rightarrow> Throws (Error msg))"

definition expectErr :: "string \<Rightarrow> ('t, 'e) Result \<Rightarrow> (Error, 'e) completion" where
  "expectErr msg self =
     (case self of Err e \<Rightarrow> Returns e | Ok _ \<Rightarrow> Throws (Error msg))"

definition Result_unwrap :: "('t, 'e) Result \<Rightarrow> (Error, 't) completion" where
  "Result_unwrap self =
     (case self of
        Ok v \<Rightarrow> Returns v
      | Err _ \<Rightarrow> Throws (Error ''Called `unwrap` on an `Err` value''))"

definition unwrapErr :: "('t, 'e) Result \<Rightarrow> (Error, 'e) completion" where
  "unwrapErr self =
     (case self of
        Err e \<Rightarrow> Returns e
      | Ok _ \<Rightarrow> Throws (Error ''Called `unwrapErr` on an `Ok` value''))"

subsection \<open>The capture constructors\<close>

text \<open>
  \<^verbatim>\<open>class UnknownException extends TaggedError("UnknownException")<{ error: Error }>\<close>:
  \<^verbatim>\<open>TaggedError\<close> stamps the tag, the constructor of \<^verbatim>\<open>ErrorBase\<close> assigns the
  argument's fields. The caught value is typed \<^verbatim>\<open>unknown\<close> in the source (the cast
  \<^verbatim>\<open>error as Error\<close> checks nothing), so its type is a parameter \<open>'x\<close>.
\<close>

record 'x UnknownException =
  tag :: string
  error :: 'x

definition new_UnknownException :: "'x \<Rightarrow> 'x UnknownException" where
  "new_UnknownException e = \<lparr>tag = ''UnknownException'', error = e\<rparr>"

text \<open>
  \<^verbatim>\<open>tryCatch\<close> is overloaded and dispatches on \<^verbatim>\<open>typeof fnOrObj === "function"\<close>; the
  two overloads have different result types, so each is a function here: \<open>tryCatch_fn\<close>
  for \<^verbatim>\<open>tryCatch(fn)\<close>, \<open>tryCatch_obj\<close> for \<^verbatim>\<open>tryCatch({ try, catch })\<close>. The wrapped
  computation \<^verbatim>\<open>() => T\<close> runs inside \<^verbatim>\<open>try { }\<close> and may throw: it is a function
  from \<open>unit\<close> to a \<open>completion\<close>. The mapping \<^verbatim>\<open>catch\<close> is a total function. The result
  is the completion of the call of \<^verbatim>\<open>tryCatch\<close> itself.
\<close>

record ('x, 'a, 'e) TryObj =
  try_fn :: "unit \<Rightarrow> ('x, 'a) completion"
  catch_fn :: "'x \<Rightarrow> 'e"

definition tryCatch_fn ::
  "(unit \<Rightarrow> ('x, 'a) completion) \<Rightarrow> ('x, ('a, 'x UnknownException) Result) completion" where
  "tryCatch_fn fnOrObj =
     (case fnOrObj () of
        Returns v \<Rightarrow> Returns (Ok v)
      | Throws e \<Rightarrow> Returns (Err (new_UnknownException e)))"

definition tryCatch_obj ::
  "('x, 'a, 'e) TryObj \<Rightarrow> ('x, ('a, 'e) Result) completion" where
  "tryCatch_obj fnOrObj =
     (case try_fn fnOrObj () of
        Returns v \<Rightarrow> Returns (Ok v)
      | Throws e \<Rightarrow> Returns (Err (catch_fn fnOrObj e)))"

text \<open>
  A promise is known by the state it settles in: fulfilled with a value, rejected with a
  reason, or pending for ever. \<^verbatim>\<open>p.then(f)\<close> and \<^verbatim>\<open>p.catch(h)\<close> are the language's
  own, for handlers that return normally (\<^verbatim>\<open>Ok\<close>, and the two arrow functions of
  \<^verbatim>\<open>tryPromise\<close>, whose \<^verbatim>\<open>catch\<close> mapping is total as above).
\<close>

datatype ('x, 'a) Promise = Fulfilled 'a | Rejected 'x | Pending

definition Promise_then :: "('a \<Rightarrow> 'b) \<Rightarrow> ('x, 'a) Promise \<Rightarrow> ('x, 'b) Promise" where
  "Promise_then onFulfilled p =
     (case p of Fulfilled v \<Rightarrow> Fulfilled (onFulfilled v) | Rejected e \<Rightarrow> Rejected e
      | Pending \<Rightarrow> Pending)"

definition Promise_catch :: "('x \<Rightarrow> 'a) \<Rightarrow> ('x, 'a) Promise \<Rightarrow> ('x, 'a) Promise" where
  "Promise_catch onRejected p =
     (case p of Fulfilled v \<Rightarrow> Fulfilled v | Rejected e \<Rightarrow> Fulfilled (onRejected e)
      | Pending \<Rightarrow> Pending)"

text \<open>
  \<^verbatim>\<open>tryPromise\<close> is an ordinary (not \<^verbatim>\<open>async\<close>) function. It calls the computation
  \<^verbatim>\<open>() => Promise<T>\<close> under no \<^verbatim>\<open>try\<close>, then chains \<^verbatim>\<open>.then(Ok).catch(...)\<close> on the
  promise that the call returned. The computation either returns a promise or throws
  before it has one to return; in the second case there is nothing to chain on and the
  exception leaves \<^verbatim>\<open>tryPromise\<close>.
\<close>

record ('x, 'a, 'e) TryPromiseObj =
  try_promise :: "unit \<Rightarrow> ('x, ('x, 'a) Promise) completion"
  catch_promise :: "'x \<Rightarrow> 'e"

definition tryPromise_fn ::
  "(unit \<Rightarrow> ('x, ('x, 'a) Promise) completion) \<Rightarrow>
     ('x, ('x, ('a, 'x UnknownException) Result) Promise) completion" where
  "tryPromise_fn fnOrObj =
     (case fnOrObj () of
        Throws e \<Rightarrow> Throws e
      | Returns p \<Rightarrow>
          Returns (Promise_catch (\<lambda>e. Err (new_UnknownException e)) (Promise_then Ok p)))"

definition tryPromise_obj ::
  "('x, 'a, 'e) TryPromiseObj \<Rightarrow> ('x, ('x, ('a, 'e) Result) Promise) completion" where
  "tryPromise_obj fnOrObj =
     (case try_promise fnOrObj () of
        Throws e \<Rightarrow> Throws e
      | Returns p \<Rightarrow>
          Returns (Promise_catch (\<lambda>e. Err (catch_promise fnOrObj e)) (Promise_then Ok p)))"

section \<open>pipe\<close>

text \<open>
  Modelled from the spec: \<^verbatim>\<open>pipe.ts\<close> is not among the sources (only its test and its
  callers are). The specification says that \<^verbatim>\<open>pipe\<close> "accepts a start value and zero
  or more unary transformation functions; returns the result of applying them strictly
  left to right, each function receiving the prior step's output. With zero functions,
  returns the start value unchanged." The functions are a list; HOL lists are
  homogeneous, so all steps share one type here.
\<close>

fun pipe :: "'a \<Rightarrow> ('a \<Rightarrow> 'a) list \<Rightarrow> 'a" where
  "pipe a [] = a"
| "pipe a (f # fs) = pipe (f a) fs"

text \<open>
  The two functions of the specification's example, \<^verbatim>\<open>addOne(n) = n + 1\<close> and
  \<^verbatim>\<open>double(n) = n * 2\<close> (the test of \<^verbatim>\<open>pipe\<close> calls the second
  \<^verbatim>\<open>multiplyByTwo\<close>), on integers.
\<close>

definition addOne :: "int \<Rightarrow> int" where
  "addOne n = n + 1"

definition double :: "int \<Rightarrow> int" where
  "double n = n * 2"

section \<open>Option: mapOr and mapOrElse\<close>

text \<open>
  C1. For every value \<open>v\<close> and function \<open>fn\<close>, \<^verbatim>\<open>Option.mapOr(default, fn)(Some(v))\<close> is
  \<^verbatim>\<open>Some(fn(v))\<close> and \<^verbatim>\<open>Option.mapOr(default, fn)(None)\<close> is \<^verbatim>\<open>Some(default)\<close>;
  \<^verbatim>\<open>Option.mapOrElse(defaultFn, fn)(Some(v))\<close> is \<^verbatim>\<open>Some(fn(v))\<close> and
  \<^verbatim>\<open>Option.mapOrElse(defaultFn, fn)(None)\<close> is \<^verbatim>\<open>Some(defaultFn())\<close>. The result is a
  \<^verbatim>\<open>Some\<close> for every receiver, never a bare value: the result type of both is
  \<open>'u Option\<close>, and \<open>isSome\<close> holds of it.
\<close>

theorem Option_mapOr_mapOrElse_wrap:
  "Option_mapOr d fn (SomeOpt v) = SomeOpt (fn v) \<and>
   Option_mapOr d fn NoneOpt = SomeOpt d \<and>
   Option_mapOrElse defaultFn fn (SomeOpt v) = SomeOpt (fn v) \<and>
   Option_mapOrElse defaultFn fn NoneOpt = SomeOpt (defaultFn ()) \<and>
   isSome (Option_mapOr d fn self) \<and>
   isSome (Option_mapOrElse defaultFn fn self)"
  by (cases self) (simp_all add: Option_mapOr_def Option_mapOrElse_def isSome_def)

section \<open>Result: mapOr and mapOrElse\<close>

text \<open>
  C2. For every value \<open>x\<close>, error \<open>e\<close> and function \<open>f\<close>,
  \<^verbatim>\<open>Result.mapOr(default, f)(Ok(x))\<close> is the bare value \<^verbatim>\<open>f(x)\<close> and
  \<^verbatim>\<open>Result.mapOr(default, f)(Err(e))\<close> is \<^verbatim>\<open>default\<close>;
  \<^verbatim>\<open>Result.mapOrElse(fnWhenErr, f)(Ok(x))\<close> is \<^verbatim>\<open>f(x)\<close> and
  \<^verbatim>\<open>Result.mapOrElse(fnWhenErr, f)(Err(e))\<close> is \<^verbatim>\<open>fnWhenErr(e)\<close>. The result is not
  wrapped in \<^verbatim>\<open>Ok\<close> again (its type is \<open>'u\<close>), unlike \<^verbatim>\<open>Option.mapOr\<close>, whose result on
  the same function and default is the \<^verbatim>\<open>Some\<close> of what \<^verbatim>\<open>Result.mapOr\<close> returns bare.
\<close>

theorem Result_mapOr_mapOrElse_bare:
  "Result_mapOr d f (Ok x) = f x \<and>
   Result_mapOr d f (Err e) = d \<and>
   Result_mapOrElse fnWhenErr f (Ok x) = f x \<and>
   Result_mapOrElse fnWhenErr f (Err e) = fnWhenErr e \<and>
   Option_mapOr d f (SomeOpt x) = SomeOpt (Result_mapOr d f (Ok x)) \<and>
   Option_mapOr d f NoneOpt = SomeOpt (Result_mapOr d f (Err e))"
  by (simp add: Result_mapOr_def Result_mapOrElse_def Option_mapOr_def)

section \<open>Option: what raises\<close>

text \<open>
  With callbacks that return, a \<open>_call\<close> returns what the combinator of the first
  reading computes.
\<close>

lemma Option_call_returning_callbacks:
  "Option_andThen_call (\<lambda>v. Returns (f1 v)) self = Returns (Option_andThen f1 self)"
  "Option_filter_call (\<lambda>v. Returns (f2 v)) self = Returns (Option_filter f2 self)"
  "Option_inspect_call (\<lambda>v s. Returns (f3 v s)) self s = Returns (Option_inspect f3 self s)"
  "isNoneOr_call (\<lambda>v. Returns (f2 v)) self = Returns (isNoneOr f2 self)"
  "isSomeAnd_call (\<lambda>v. Returns (f2 v)) self = Returns (isSomeAnd f2 self)"
  "Option_map_call (\<lambda>v. Returns (f4 v)) self = Returns (Option_map f4 self)"
  "Option_mapOr_call d (\<lambda>v. Returns (f4 v)) self = Returns (Option_mapOr d f4 self)"
  "Option_mapOrElse_call (\<lambda>u. Returns (f5 u)) (\<lambda>v. Returns (f4 v)) self =
     Returns (Option_mapOrElse f5 f4 self)"
  "okOrElse_call (\<lambda>u. Returns (f6 u)) self = Returns (okOrElse f6 self)"
  "Option_orElse_call (\<lambda>v. Returns (f7 v)) self = Returns (Option_orElse f7 self)"
  "Option_unwrapOrElse_call (\<lambda>v. Returns (f8 v)) self = Returns (Option_unwrapOrElse f8 self)"
  "zipWith_call other (\<lambda>a b. Returns (f9 a b)) self = Returns (zipWith other f9 self)"
  by (cases self;
      simp add: Option_andThen_call_def Option_andThen_def Option_filter_call_def
        Option_filter_def Option_inspect_call_def Option_inspect_def isNoneOr_call_def
        isNoneOr_def isSomeAnd_call_def isSomeAnd_def Option_map_call_def Option_map_def
        Option_mapOr_call_def Option_mapOr_def Option_mapOrElse_call_def Option_mapOrElse_def
        okOrElse_call_def okOrElse_def Option_orElse_call_def Option_orElse_def
        Option_unwrapOrElse_call_def Option_unwrapOrElse_def zipWith_call_def zipWith_def)+

text \<open>
  A combinator that takes a callback throws exactly when it calls the callback and the
  callback throws, and it throws the callback's value.
\<close>

lemma Option_call_throws_iff:
  "(Option_andThen_call g1 self = Throws x) = (\<exists>v. self = SomeOpt v \<and> g1 v = Throws x)"
  "(Option_filter_call g2 self = Throws x) = (\<exists>v. self = SomeOpt v \<and> g2 v = Throws x)"
  "(Option_inspect_call g3 self s = Throws x) = (\<exists>v. self = SomeOpt v \<and> g3 v s = Throws x)"
  "(isNoneOr_call g2 self = Throws x) = (\<exists>v. self = SomeOpt v \<and> g2 v = Throws x)"
  "(isSomeAnd_call g2 self = Throws x) = (\<exists>v. self = SomeOpt v \<and> g2 v = Throws x)"
  "(Option_map_call g4 self = Throws x) = (\<exists>v. self = SomeOpt v \<and> g4 v = Throws x)"
  "(Option_mapOr_call d g4 self = Throws x) = (\<exists>v. self = SomeOpt v \<and> g4 v = Throws x)"
  "(Option_mapOrElse_call g5 g4 self = Throws x) =
     ((\<exists>v. self = SomeOpt v \<and> g4 v = Throws x) \<or> (self = NoneOpt \<and> g5 () = Throws x))"
  "(okOrElse_call g6 self = Throws x) = (self = NoneOpt \<and> g6 () = Throws x)"
  "(Option_orElse_call g7 self = Throws x) = (self = NoneOpt \<and> g7 self = Throws x)"
  "(Option_unwrapOrElse_call g8 self = Throws x) = (self = NoneOpt \<and> g8 self = Throws x)"
  by (cases self;
      simp add: Option_andThen_call_def Option_filter_call_def Option_inspect_call_def
        isNoneOr_call_def isSomeAnd_call_def Option_map_call_def Option_mapOr_call_def
        Option_mapOrElse_call_def okOrElse_call_def Option_orElse_call_def
        Option_unwrapOrElse_call_def
      split: completion.split)+

lemma zipWith_call_throws_iff:
  "(zipWith_call other g9 self = Throws x) =
     (\<exists>a b. self = SomeOpt a \<and> other = SomeOpt b \<and> g9 a b = Throws x)"
  by (cases self; cases other)
    (simp_all add: zipWith_call_def isSome_def split: completion.split)

text \<open>
  The combinators that take no callback, on each receiver.
\<close>

lemma Option_without_callback:
  "Option_and other self = (if isSome self then other else NoneOpt)"
  "Option_or alt self = (if isSome self then self else alt)"
  "okOr err self = (if isSome self then Ok (some_value self) else Err err)"
  by (cases self; simp add: Option_and_def Option_or_def okOr_def isSome_def)+

text \<open>
  The claim that no combinator of Option.ts other than \<^verbatim>\<open>unwrap\<close> and \<^verbatim>\<open>expect\<close> ever
  throws, at \<^verbatim>\<open>mapOr(42, (v) => { throw new Error("boom") })(Some("foo"))\<close>: the call
  throws the callback's error.
\<close>

theorem Option_mapOr_throws_counterexample:
  "Option_mapOr_call 42 throwingCallback (SomeOpt ''foo'') = Throws (Error ''boom'')"
  by (simp add: Option_mapOr_call_def throwingCallback_def)

text \<open>
  C4, amended. For every value \<open>x\<close>, \<^verbatim>\<open>Option.unwrap(Some(x))\<close> returns \<open>x\<close>;
  \<^verbatim>\<open>Option.unwrap(None)\<close> raises an error whose message is exactly
  \<^verbatim>\<open>Called `Option.unwrap()` on a `None` value\<close>; \<^verbatim>\<open>Option.expect(msg)(None)\<close> raises
  an error that carries the caller's message \<open>msg\<close> verbatim, and
  \<^verbatim>\<open>Option.expect(msg)(Some(x))\<close> returns \<open>x\<close>; the two raise on a \<^verbatim>\<open>None\<close> receiver
  and on no other. No other combinator of Option.ts raises an error of its own. One
  that takes a callback (\<^verbatim>\<open>andThen\<close>, \<^verbatim>\<open>filter\<close>, \<^verbatim>\<open>inspect\<close>, \<^verbatim>\<open>isNoneOr\<close>,
  \<^verbatim>\<open>isSomeAnd\<close>, \<^verbatim>\<open>map\<close>, \<^verbatim>\<open>mapOr\<close>, \<^verbatim>\<open>mapOrElse\<close>, \<^verbatim>\<open>okOrElse\<close>, \<^verbatim>\<open>orElse\<close>,
  \<^verbatim>\<open>unwrapOrElse\<close>, \<^verbatim>\<open>zipWith\<close>) throws exactly when it calls the callback and the
  callback throws, and then it throws what the callback threw. One that takes none
  (\<^verbatim>\<open>and\<close>, \<^verbatim>\<open>or\<close>, \<^verbatim>\<open>okOr\<close>, \<^verbatim>\<open>unwrapOr\<close>, \<^verbatim>\<open>isSome\<close>, \<^verbatim>\<open>isNone\<close>, \<^verbatim>\<open>flatten\<close>,
  \<^verbatim>\<open>transpose\<close>, \<^verbatim>\<open>xor\<close>, \<^verbatim>\<open>zip\<close>, \<^verbatim>\<open>unzip\<close>) returns a value on every receiver:
  \<^verbatim>\<open>unwrapOr\<close> returns the default exactly where \<^verbatim>\<open>unwrap\<close> raises, and the value of
  each of the others is the one its case analysis on the receiver gives.
\<close>

theorem Option_raises_only_unwrap_expect_or_callback:
  "Option_unwrap (SomeOpt x) = Returns x \<and>
   Option_unwrap (NoneOpt :: 't Option) =
     Throws (Error ''Called `Option.unwrap()` on a `None` value'') \<and>
   Option_expect msg (NoneOpt :: 't Option) = Throws (Error msg) \<and>
   Option_expect msg (SomeOpt x) = Returns x \<and>
   (\<exists>e. Option_unwrap self = Throws e) = isNone self \<and>
   (\<exists>e. Option_expect msg self = Throws e) = isNone self \<and>
   (Option_andThen_call g1 self = Throws y) = (\<exists>v. self = SomeOpt v \<and> g1 v = Throws y) \<and>
   (Option_filter_call g2 self = Throws y) = (\<exists>v. self = SomeOpt v \<and> g2 v = Throws y) \<and>
   (Option_inspect_call g3 self s = Throws y) = (\<exists>v. self = SomeOpt v \<and> g3 v s = Throws y) \<and>
   (isNoneOr_call g2 self = Throws y) = (\<exists>v. self = SomeOpt v \<and> g2 v = Throws y) \<and>
   (isSomeAnd_call g2 self = Throws y) = (\<exists>v. self = SomeOpt v \<and> g2 v = Throws y) \<and>
   (Option_map_call g4 self = Throws y) = (\<exists>v. self = SomeOpt v \<and> g4 v = Throws y) \<and>
   (Option_mapOr_call d' g4 self = Throws y) = (\<exists>v. self = SomeOpt v \<and> g4 v = Throws y) \<and>
   (Option_mapOrElse_call g5 g4 self = Throws y) =
     ((\<exists>v. self = SomeOpt v \<and> g4 v = Throws y) \<or> (self = NoneOpt \<and> g5 () = Throws y)) \<and>
   (okOrElse_call g6 self = Throws y) = (self = NoneOpt \<and> g6 () = Throws y) \<and>
   (Option_orElse_call g7 self = Throws y) = (self = NoneOpt \<and> g7 self = Throws y) \<and>
   (Option_unwrapOrElse_call g8 self = Throws y) = (self = NoneOpt \<and> g8 self = Throws y) \<and>
   (zipWith_call other g9 self = Throws y) =
     (\<exists>a b. self = SomeOpt a \<and> other = SomeOpt b \<and> g9 a b = Throws y) \<and>
   Option_unwrapOr d self = (case Option_unwrap self of Returns v \<Rightarrow> v | Throws _ \<Rightarrow> d) \<and>
   Option_and other' self = (if isSome self then other' else NoneOpt) \<and>
   Option_or alt self = (if isSome self then self else alt) \<and>
   okOr err self = (if isSome self then Ok (some_value self) else Err err) \<and>
   isSome self = (\<exists>v. self = SomeOpt v) \<and>
   isNone self = (self = NoneOpt) \<and>
   Option_flatten nested = (if isSome nested then some_value nested else NoneOpt) \<and>
   Option_transpose wrapped =
     (case wrapped of
        SomeOpt (Ok v) \<Rightarrow> Ok (SomeOpt v)
      | SomeOpt (Err e) \<Rightarrow> Err e
      | NoneOpt \<Rightarrow> Ok NoneOpt) \<and>
   Option_xor other self =
     (if isSome self \<and> isNone other then self
      else if isNone self \<and> isSome other then other
      else NoneOpt) \<and>
   Option_zip other self =
     (case (self, other) of (SomeOpt a, SomeOpt b) \<Rightarrow> SomeOpt (a, b) | _ \<Rightarrow> NoneOpt) \<and>
   unzip pair = (case pair of SomeOpt (a, b) \<Rightarrow> (SomeOpt a, SomeOpt b)
                 | NoneOpt \<Rightarrow> (NoneOpt, NoneOpt))"
proof -
  have raise: "Option_unwrap (SomeOpt x) = Returns x"
    "Option_unwrap (NoneOpt :: 't Option) =
       Throws (Error ''Called `Option.unwrap()` on a `None` value'')"
    "Option_expect msg (NoneOpt :: 't Option) = Throws (Error msg)"
    "Option_expect msg (SomeOpt x) = Returns x"
    by (simp_all add: Option_unwrap_def Option_expect_def)
  have only_None: "(\<exists>e. Option_unwrap self = Throws e) = isNone self"
    "(\<exists>e. Option_expect msg self = Throws e) = isNone self"
    "Option_unwrapOr d self = (case Option_unwrap self of Returns v \<Rightarrow> v | Throws _ \<Rightarrow> d)"
    "isSome self = (\<exists>v. self = SomeOpt v)"
    "isNone self = (self = NoneOpt)"
    by (cases self;
        simp add: Option_unwrap_def Option_expect_def Option_unwrapOr_def isNone_def isSome_def)+
  have flatten: "Option_flatten nested = (if isSome nested then some_value nested else NoneOpt)"
    by (cases nested) (simp_all add: Option_flatten_def isSome_def)
  have transpose: "Option_transpose wrapped =
     (case wrapped of
        SomeOpt (Ok v) \<Rightarrow> Ok (SomeOpt v)
      | SomeOpt (Err e) \<Rightarrow> Err e
      | NoneOpt \<Rightarrow> Ok NoneOpt)"
    by (simp add: Option_transpose_def isOk_def isErr_def split: Option.split Result.split)
  have xor: "Option_xor other self =
     (if isSome self \<and> isNone other then self
      else if isNone self \<and> isSome other then other
      else NoneOpt)"
    by (cases self; cases other) (simp_all add: Option_xor_def isSome_def isNone_def)
  have zip: "Option_zip other self =
     (case (self, other) of (SomeOpt a, SomeOpt b) \<Rightarrow> SomeOpt (a, b) | _ \<Rightarrow> NoneOpt)"
    by (cases self; cases other) (simp_all add: Option_zip_def isSome_def)
  have unzip: "unzip pair = (case pair of SomeOpt (a, b) \<Rightarrow> (SomeOpt a, SomeOpt b)
                 | NoneOpt \<Rightarrow> (NoneOpt, NoneOpt))"
    by (simp add: unzip_def)
  show ?thesis
    by (intro conjI)
      (rule raise only_None Option_call_throws_iff zipWith_call_throws_iff
        Option_without_callback flatten transpose xor zip unzip)+
qed

section \<open>Option: transpose\<close>

text \<open>
  C5. For every value \<open>v\<close> and error \<open>e\<close>, \<^verbatim>\<open>Option.transpose\<close> maps
  \<^verbatim>\<open>Some(Ok(v))\<close> to \<^verbatim>\<open>Ok(Some(v))\<close>, \<^verbatim>\<open>Some(Err(e))\<close> to \<^verbatim>\<open>Err(e)\<close> and
  \<^verbatim>\<open>None\<close> to \<^verbatim>\<open>Ok(None)\<close>: absence transposes to a success that carries
  \<^verbatim>\<open>None\<close>, and the result is an \<^verbatim>\<open>Err\<close> only when the option held one.
\<close>

theorem Option_transpose_cases:
  "Option_transpose (SomeOpt (Ok v :: ('t, 'e) Result)) = Ok (SomeOpt v) \<and>
   Option_transpose (SomeOpt (Err e :: ('t, 'e) Result)) = Err e \<and>
   Option_transpose (NoneOpt :: ('t, 'e) Result Option) = Ok NoneOpt \<and>
   isErr (Option_transpose self) = (\<exists>e'. self = SomeOpt (Err e'))"
proof -
  have "isErr (Option_transpose self) = (\<exists>e'. self = SomeOpt (Err e'))"
  proof (cases self)
    case (SomeOpt r)
    then show ?thesis
      by (cases r) (simp_all add: Option_transpose_def isOk_def isErr_def)
  next
    case NoneOpt
    then show ?thesis
      by (simp add: Option_transpose_def isErr_def)
  qed
  then show ?thesis
    by (simp add: Option_transpose_def isOk_def isErr_def)
qed

section \<open>Option: xor\<close>

text \<open>
  C6. For all options \<open>self\<close> and \<open>other\<close>, \<^verbatim>\<open>xor(other)(self)\<close> is a \<^verbatim>\<open>Some\<close> exactly
  when exactly one of the two is a \<^verbatim>\<open>Some\<close>, and it is then that one; when both are
  \<^verbatim>\<open>Some\<close> or both are \<^verbatim>\<open>None\<close> it is \<^verbatim>\<open>None\<close>:
  \<^verbatim>\<open>xor(Some(y))(Some(x)) = None\<close>, \<^verbatim>\<open>xor(None)(Some(x)) = Some(x)\<close>,
  \<^verbatim>\<open>xor(Some(y))(None) = Some(y)\<close>, \<^verbatim>\<open>xor(None)(None) = None\<close>.
\<close>

theorem Option_xor_cases:
  "isSome (Option_xor other self) = (isSome self \<noteq> isSome other) \<and>
   Option_xor (SomeOpt y) (SomeOpt x) = NoneOpt \<and>
   Option_xor NoneOpt (SomeOpt x) = SomeOpt x \<and>
   Option_xor (SomeOpt y) NoneOpt = SomeOpt y \<and>
   Option_xor NoneOpt (NoneOpt :: 't Option) = NoneOpt"
  by (cases self; cases other) (simp_all add: Option_xor_def isSome_def isNone_def)

section \<open>Option: zip and unzip\<close>

text \<open>
  C7. For all values \<open>a\<close> and \<open>b\<close>, \<^verbatim>\<open>unzip(zip(Some(b))(Some(a)))\<close> is
  \<^verbatim>\<open>[Some(a), Some(b)]\<close>: \<^verbatim>\<open>zip\<close> followed by \<^verbatim>\<open>unzip\<close> gives back two \<^verbatim>\<open>Some\<close>
  inputs. \<^verbatim>\<open>zip\<close> returns \<^verbatim>\<open>None\<close> whenever either side is \<^verbatim>\<open>None\<close> (and only then),
  and \<^verbatim>\<open>unzip(None)\<close> is \<^verbatim>\<open>[None, None]\<close>.
\<close>

theorem Option_zip_unzip_roundtrip:
  "unzip (Option_zip (SomeOpt b) (SomeOpt a)) = (SomeOpt a, SomeOpt b) \<and>
   Option_zip other (NoneOpt :: 't Option) = NoneOpt \<and>
   Option_zip (NoneOpt :: 'u Option) self = NoneOpt \<and>
   isNone (Option_zip other self) = (isNone self \<or> isNone other) \<and>
   unzip (NoneOpt :: ('t \<times> 'u) Option) = (NoneOpt, NoneOpt)"
  by (cases self; cases other) (simp_all add: Option_zip_def unzip_def isSome_def isNone_def)

section \<open>Option: flatten\<close>

text \<open>
  C8. \<^verbatim>\<open>Option.flatten\<close> removes exactly one level of nesting per call: for every
  \<open>x\<close>, \<^verbatim>\<open>flatten(Some(Some(x))) = Some(x)\<close>, \<^verbatim>\<open>flatten(Some(None)) = None\<close>,
  \<^verbatim>\<open>flatten(None) = None\<close>; on three levels one call leaves two,
  \<^verbatim>\<open>flatten(Some(Some(Some(x)))) = Some(Some(x))\<close>, and the second call is needed to
  reach \<^verbatim>\<open>flatten(flatten(Some(Some(Some(x))))) = Some(x)\<close>.
\<close>

theorem Option_flatten_one_level:
  "Option_flatten (SomeOpt (SomeOpt x)) = SomeOpt x \<and>
   Option_flatten (SomeOpt (NoneOpt :: 't Option)) = NoneOpt \<and>
   Option_flatten (NoneOpt :: 't Option Option) = NoneOpt \<and>
   Option_flatten (SomeOpt (SomeOpt (SomeOpt x))) = SomeOpt (SomeOpt x) \<and>
   Option_flatten (Option_flatten (SomeOpt (SomeOpt (SomeOpt x)))) = SomeOpt x \<and>
   Option_flatten (SomeOpt inner) = inner"
  by (simp add: Option_flatten_def)

section \<open>Result: unwrap and unwrapErr\<close>

text \<open>
  C10. For every error payload \<open>e\<close>, \<^verbatim>\<open>Result.unwrap(Err(e))\<close> raises an error whose
  message is the fixed string \<^verbatim>\<open>Called `unwrap` on an `Err` value\<close>: what is raised is
  a new \<^verbatim>\<open>Error\<close>, not \<open>e\<close>, and it is the same for every \<open>e\<close>. Symmetrically, for
  every value \<open>x\<close>, \<^verbatim>\<open>Result.unwrapErr(Ok(x))\<close> raises an error with the fixed message
  \<^verbatim>\<open>Called `unwrapErr` on an `Ok` value\<close>.
\<close>

theorem Result_unwrap_unwrapErr_fixed_message:
  "Result_unwrap (Err e :: ('t, 'e) Result) =
     Throws (Error ''Called `unwrap` on an `Err` value'') \<and>
   Result_unwrap (Err e :: ('t, 'e) Result) = Result_unwrap (Err e' :: ('t, 'e) Result) \<and>
   unwrapErr (Ok x :: ('t, 'e) Result) =
     Throws (Error ''Called `unwrapErr` on an `Ok` value'') \<and>
   unwrapErr (Ok x :: ('t, 'e) Result) = unwrapErr (Ok x' :: ('t, 'e) Result) \<and>
   Result_unwrap (Ok x :: ('t, 'e) Result) = Returns x \<and>
   unwrapErr (Err e :: ('t, 'e) Result) = Returns e"
  by (simp add: Result_unwrap_def unwrapErr_def)

section \<open>pipe: left to right\<close>

lemma pipe_append: "pipe x (fs @ gs) = pipe (pipe x fs) gs"
  by (induction fs arbitrary: x) simp_all

lemma pipe_foldl: "pipe x fs = foldl (\<lambda>acc f. f acc) x fs"
  by (induction fs arbitrary: x) simp_all

text \<open>
  C9. \<^verbatim>\<open>pipe\<close> applies its unary functions strictly left to right, each receiving the
  output of the one before, and returns the last output: a further function appended to
  the chain is applied to the result of the chain before it, so \<^verbatim>\<open>pipe(x, f, g)\<close> is
  \<^verbatim>\<open>g(f(x))\<close>, and \<^verbatim>\<open>pipe(1, addOne, double)\<close> is \<open>4\<close> (right to left it would be
  \<open>3\<close>). For every start value \<open>x\<close>, \<^verbatim>\<open>pipe(x)\<close> with no function returns \<open>x\<close>
  unchanged.
\<close>

theorem pipe_left_to_right:
  "pipe 1 [addOne, double] = 4 \<and>
   pipe x [] = x \<and>
   pipe x [f, g] = g (f x) \<and>
   pipe x (fs @ [g]) = g (pipe x fs) \<and>
   pipe x fs = foldl (\<lambda>acc f. f acc) x fs"
proof -
  have example: "pipe 1 [addOne, double] = 4"
    by (simp add: addOne_def double_def)
  have snoc: "pipe x (fs @ [g]) = g (pipe x fs)"
    by (simp add: pipe_append)
  from example snoc show ?thesis
    using pipe_foldl [of x fs] by simp
qed

section \<open>The capture constructors\<close>

text \<open>
  \<^verbatim>\<open>tryCatch\<close> returns for every computation: \<^verbatim>\<open>Ok\<close> of the result when the
  computation returns, \<^verbatim>\<open>Err\<close> of the wrapped or mapped failure when it throws.
\<close>

lemma tryCatch_fn_captures:
  "tryCatch_fn fn =
     Returns (case fn () of Returns v \<Rightarrow> Ok v | Throws e \<Rightarrow> Err (new_UnknownException e))"
  by (simp add: tryCatch_fn_def split: completion.split)

lemma tryCatch_obj_captures:
  "tryCatch_obj obj =
     Returns (case try_fn obj () of
                Returns v \<Rightarrow> Ok v
              | Throws e \<Rightarrow> Err (catch_fn obj e))"
  by (simp add: tryCatch_obj_def split: completion.split)

lemma tryCatch_never_throws: "tryCatch_fn fn \<noteq> Throws x" "tryCatch_obj obj \<noteq> Throws x"
  by (simp_all add: tryCatch_fn_captures tryCatch_obj_captures)

text \<open>
  \<^verbatim>\<open>tryPromise\<close>, when the computation returns its promise: the call returns a promise
  that is fulfilled with \<^verbatim>\<open>Ok\<close> of the value when that promise is fulfilled, fulfilled
  with \<^verbatim>\<open>Err\<close> of the wrapped or mapped reason when it is rejected, and never rejected.
\<close>

lemma tryPromise_fn_returned:
  "fn () = Returns p \<Longrightarrow>
   tryPromise_fn fn =
     Returns (case p of
                Fulfilled v \<Rightarrow> Fulfilled (Ok v)
              | Rejected e \<Rightarrow> Fulfilled (Err (new_UnknownException e))
              | Pending \<Rightarrow> Pending)"
  by (simp add: tryPromise_fn_def Promise_then_def Promise_catch_def split: Promise.split)

lemma tryPromise_obj_returned:
  "try_promise obj () = Returns p \<Longrightarrow>
   tryPromise_obj obj =
     Returns (case p of
                Fulfilled v \<Rightarrow> Fulfilled (Ok v)
              | Rejected e \<Rightarrow> Fulfilled (Err (catch_promise obj e))
              | Pending \<Rightarrow> Pending)"
  by (simp add: tryPromise_obj_def Promise_then_def Promise_catch_def split: Promise.split)

lemma tryPromise_never_rejects:
  "tryPromise_fn fn \<noteq> Returns (Rejected x)" "tryPromise_obj obj \<noteq> Returns (Rejected x)"
  by (simp_all add: tryPromise_fn_def tryPromise_obj_def Promise_then_def Promise_catch_def
      split: completion.split Promise.split)

text \<open>
  \<^verbatim>\<open>tryPromise\<close> throws exactly when the computation throws instead of returning a
  promise, and it throws what the computation threw.
\<close>

lemma tryPromise_throws_iff:
  "(tryPromise_fn fn = Throws x) = (fn () = Throws x)"
  "(tryPromise_obj obj = Throws x) = (try_promise obj () = Throws x)"
  by (simp_all add: tryPromise_fn_def tryPromise_obj_def split: completion.split)

text \<open>
  C3. The claim: for every wrapped computation, \<^verbatim>\<open>tryCatch\<close> and \<^verbatim>\<open>tryPromise\<close> give
  \<^verbatim>\<open>Ok(result)\<close> when the computation completes normally or fulfils, and \<^verbatim>\<open>Err\<close> of the
  failure wrapped in \<^verbatim>\<open>UnknownException\<close>, or \<^verbatim>\<open>Err(catch(failure))\<close> in the
  \<^verbatim>\<open>{ try, catch }\<close> form; every failure that the wrapped computation raises or rejects
  with is captured and never raised again to the caller. The code at the input
  \<^verbatim>\<open>() => { throw new Error("oh") }\<close>, a computation that raises before it has a promise
  to return: \<^verbatim>\<open>tryCatch\<close> captures the failure in both forms, while \<^verbatim>\<open>tryPromise\<close>
  raises it to its caller in both forms, and no promise of an \<^verbatim>\<open>Err\<close> is returned.
\<close>

theorem tryPromise_synchronous_throw_escapes:
  "tryCatch_fn (\<lambda>_. Throws (Error ''oh'') :: (Error, int) completion) =
     Returns (Err (new_UnknownException (Error ''oh''))) \<and>
   tryCatch_obj \<lparr>try_fn = (\<lambda>_. Throws (Error ''oh'') :: (Error, int) completion),
                 catch_fn = (\<lambda>_. ''failed'')\<rparr> =
     Returns (Err ''failed'') \<and>
   tryPromise_fn (\<lambda>_. Throws (Error ''oh'') :: (Error, (Error, int) Promise) completion) =
     Throws (Error ''oh'') \<and>
   tryPromise_obj
     \<lparr>try_promise = (\<lambda>_. Throws (Error ''oh'') :: (Error, (Error, int) Promise) completion),
      catch_promise = (\<lambda>_. ''failed'')\<rparr> =
     Throws (Error ''oh'')"
  by (simp add: tryCatch_fn_def tryCatch_obj_def tryPromise_fn_def tryPromise_obj_def)

end
